theory Spec2Isabelle
  imports Complex_Main "HOL-Library.Product_Lexorder" "HOL-Library.List_Lexorder"
    "HOL-Library.Char_ord"
begin

section \<open>Data model\<close>

text \<open>
  The two scripts \<^verbatim>\<open>ccr_test.py\<close> (daily flow) and \<^verbatim>\<open>new_ccr.py\<close> (month-block flow)
  are embedded as pure functions. Exceptions are values of \<open>py_error\<close>; a function that
  may raise returns \<open>py_error + 'a\<close> with \<open>Inl\<close> for the raised exception.

  Python floats are idealised as exact rationals: \<open>1 / q\<close> is exact division and raises
  \<open>ZeroDivisionError\<close> at \<open>q = 0\<close> as the float division does; \<open>round(x, 6)\<close> rounds to six
  decimals, ties to even. Infinities and NaN quotes are outside the model.
\<close>

datatype py_error = KeyError | ZeroDivisionError | RuntimeError | ValueError | TypeError

text \<open>A calendar date as (year, month, day); the lexicographic order is the calendar order.\<close>

type_synonym date = "int \<times> nat \<times> nat"

text \<open>
  A cell of a row or of a pandas DataFrame. \<open>CDate\<close> stands for an ISO date string
  (\<^verbatim>\<open>as_of.isoformat()\<close>) and for the timestamp \<^verbatim>\<open>pd.to_datetime\<close> reads from it, which
  are identified; \<open>CNull\<close> is \<^verbatim>\<open>None\<close> / NaN / NaT.
\<close>

datatype cell = CStr string | CInt int | CNum rat | CDate date | CNull

text \<open>A row is a Python dict literal: its items in insertion order.\<close>

type_synonym pyrow = "(string \<times> cell) list"

text \<open>
  A quote dict \<^verbatim>\<open>{ISO: units per 1 USD}\<close>: \<open>m k = None\<close> when the key is absent,
  \<open>m k = Some None\<close> when the key holds \<^verbatim>\<open>None\<close>, \<open>m k = Some (Some q)\<close> for a float.
\<close>

type_synonym quotes = "string \<rightharpoonup> rat option"

subsection \<open>Configuration tables\<close>

definition BASE_CCY :: string where
  "BASE_CCY = ''USD''"

definition CURRENCIES :: "string list" where
  "CURRENCIES = [''USD'', ''ARS'', ''AUD'', ''BRL'', ''CAD'', ''CLP'', ''CNY'', ''AED'',
                 ''EUR'', ''MXN'', ''NZD'', ''PAB'', ''GBP'']"

definition COUNTRY_MAP :: "string \<rightharpoonup> string \<times> string" where
  "COUNTRY_MAP = map_of
    [(''USD'', (''UNITED STATES'', ''USA'')),
     (''ARS'', (''ARGENTINA'', ''ARG'')),
     (''AUD'', (''AUSTRALIA'', ''AUS'')),
     (''BRL'', (''BRASIL'', ''BRA'')),
     (''CAD'', (''CANADA'', ''CAN'')),
     (''CLP'', (''CHILE'', ''CHL'')),
     (''CNY'', (''CHINA'', ''CHN'')),
     (''AED'', (''DUBAI'', ''UAE'')),
     (''EUR'', (''EUROPE'', ''EUR'')),
     (''MXN'', (''MEXICO'', ''MEX'')),
     (''NZD'', (''NEW ZEALAND'', ''NZ'')),
     (''PAB'', (''PANAMA'', ''PAN'')),
     (''GBP'', (''UNITED KINGDOM'', ''UK''))]"

definition XRATES_NAME_TO_ISO :: "string \<rightharpoonup> string" where
  "XRATES_NAME_TO_ISO = map_of
    [(''US Dollar'', ''USD''), (''U.S. Dollar'', ''USD''),
     (''Argentine Peso'', ''ARS''),
     (''Australian Dollar'', ''AUD''),
     (''Brazilian Real'', ''BRL''),
     (''Canadian Dollar'', ''CAD''),
     (''Chilean Peso'', ''CLP''),
     (''Chinese Yuan'', ''CNY''), (''Chinese Yuan Renminbi'', ''CNY''),
     (''UAE Dirham'', ''AED''), (''Emirati Dirham'', ''AED''),
     (''Euro'', ''EUR''),
     (''Mexican Peso'', ''MXN''),
     (''New Zealand Dollar'', ''NZD''),
     (''Panamanian Balboa'', ''PAB''),
     (''British Pound'', ''GBP''), (''British Pound Sterling'', ''GBP'')]"

subsection \<open>Library functions of Python\<close>

text \<open>\<^verbatim>\<open>round(x, 6)\<close> on the idealised floats: nearest multiple of \<open>10\<^sup>-\<^sup>6\<close>, ties to even.\<close>

definition round_half_even :: "rat \<Rightarrow> int" where
  "round_half_even y =
     (let f = \<lfloor>y\<rfloor>; d = y - of_int f
      in if d < 1 / 2 then f else if 1 / 2 < d then f + 1
         else if even f then f else f + 1)"

definition py_round6 :: "rat \<Rightarrow> rat" where
  "py_round6 x = of_int (round_half_even (x * 1000000)) / 1000000"

text \<open>\<^verbatim>\<open>as_of.strftime("%B")\<close>: the English month name.\<close>

definition month_name :: "nat \<Rightarrow> string" where
  "month_name m =
     (if 1 \<le> m \<and> m \<le> 12
      then [''January'', ''February'', ''March'', ''April'', ''May'', ''June'', ''July'',
            ''August'', ''September'', ''October'', ''November'', ''December''] ! (m - 1)
      else [])"

definition year_of :: "date \<Rightarrow> int" where
  "year_of d = fst d"

definition month_of :: "date \<Rightarrow> nat" where
  "month_of d = fst (snd d)"

section \<open>Daily flow: row builder (\<^verbatim>\<open>build_rows_for_date\<close>)\<close>

text \<open>
  The conversion value of one currency, lines 213--216 of \<^verbatim>\<open>ccr_test.py\<close>:
  PAB is forced to 1.0; otherwise the guard is \<^verbatim>\<open>ccy in usd_to and usd_to[ccy] is not None\<close>,
  and \<^verbatim>\<open>1 / float(usd_to[ccy])\<close> raises on a zero quote.
\<close>

definition conv_for_date :: "quotes \<Rightarrow> string \<Rightarrow> py_error + cell" where
  "conv_for_date usd_to ccy =
     (if ccy = ''PAB'' then Inr (CNum 1)
      else (case usd_to ccy of
              Some (Some q) \<Rightarrow>
                if q = 0 then Inl ZeroDivisionError else Inr (CNum (py_round6 (1 / q)))
            | _ \<Rightarrow> Inr CNull))"

definition country_of :: "string \<Rightarrow> string \<times> string" where
  "country_of ccy = (case COUNTRY_MAP ccy of Some p \<Rightarrow> p | None \<Rightarrow> ([], []))"

definition row_for_date :: "date \<Rightarrow> quotes \<Rightarrow> string \<Rightarrow> py_error + pyrow" where
  "row_for_date as_of usd_to ccy =
     (case conv_for_date usd_to ccy of
        Inl e \<Rightarrow> Inl e
      | Inr conv \<Rightarrow>
          Inr [(''conversion_date'', CDate as_of),
               (''conversion_year'', CInt (year_of as_of)),
               (''conversion_month'', CStr (month_name (month_of as_of))),
               (''country'', CStr (fst (country_of ccy))),
               (''country_code'', CStr (snd (country_of ccy))),
               (''currency'', CStr ccy),
               (''conversion_rate'', conv)])"

text \<open>The loop \<^verbatim>\<open>for ccy in CURRENCIES\<close>, with the list \<open>rows\<close> built so far.\<close>

fun build_rows_loop :: "date \<Rightarrow> quotes \<Rightarrow> string list \<Rightarrow> pyrow list \<Rightarrow> py_error + pyrow list" where
  "build_rows_loop as_of usd_to [] rows = Inr rows"
| "build_rows_loop as_of usd_to (ccy # rest) rows =
     (case row_for_date as_of usd_to ccy of
        Inl e \<Rightarrow> Inl e
      | Inr r \<Rightarrow> build_rows_loop as_of usd_to rest (rows @ [r]))"

definition build_rows_for_date :: "date \<Rightarrow> quotes \<Rightarrow> py_error + pyrow list" where
  "build_rows_for_date as_of usd_to = build_rows_loop as_of usd_to CURRENCIES []"

text \<open>Reading a built row: \<^verbatim>\<open>row[key]\<close>, and the rate of the row of one currency.\<close>

definition row_get :: "pyrow \<Rightarrow> string \<Rightarrow> cell option" where
  "row_get r k = map_of r k"

definition rows_of_ccy :: "string \<Rightarrow> pyrow list \<Rightarrow> pyrow list" where
  "rows_of_ccy ccy rows = filter (\<lambda>r. row_get r ''currency'' = Some (CStr ccy)) rows"

text \<open>The cells under \<open>field\<close> of the rows of currency \<open>ccy\<close>, in the order of the rows.\<close>

definition cells_of_ccy :: "string \<Rightarrow> string \<Rightarrow> pyrow list \<Rightarrow> cell option list" where
  "cells_of_ccy field ccy rows = map (\<lambda>r. row_get r field) (rows_of_ccy ccy rows)"

section \<open>Daily flow: fetch client and provider adapters\<close>

text \<open>
  \<^verbatim>\<open>_retry_get\<close>: \<open>attempt i\<close> is the outcome of the body of the \<^verbatim>\<open>try\<close> at attempt \<open>i\<close>
  (the GET, the content-type check and the decoding); an exception there is caught and
  the loop goes on; after \<open>attempts\<close> failures \<^verbatim>\<open>RuntimeError\<close> is raised.
  \<open>retry_loop attempt i n\<close> runs the \<open>n\<close> attempts \<open>i, i + 1, ...\<close>.
\<close>

fun retry_loop :: "(nat \<Rightarrow> py_error + 'a) \<Rightarrow> nat \<Rightarrow> nat \<Rightarrow> py_error + 'a" where
  "retry_loop attempt i 0 = Inl RuntimeError"
| "retry_loop attempt i (Suc n) =
     (case attempt i of Inr r \<Rightarrow> Inr r | Inl e \<Rightarrow> retry_loop attempt (Suc i) n)"

definition retry_get :: "(nat \<Rightarrow> py_error + 'a) \<Rightarrow> nat \<Rightarrow> py_error + 'a" where
  "retry_get attempt attempts = retry_loop attempt 0 attempts"

text \<open>
  An HTML table as \<^verbatim>\<open>pd.read_html\<close> returns it: the column labels (as \<^verbatim>\<open>str(c)\<close>) and the
  rows, each giving the text \<^verbatim>\<open>str(cell)\<close> of the cell at a column position. \<^verbatim>\<open>row[label]\<close>
  reads the column of that label and raises \<^verbatim>\<open>KeyError\<close> when no column has it (labels
  are taken pairwise distinct, as on the x-rates pages).
\<close>

record html_table =
  tcolumns :: "string list"
  trows :: "(nat \<Rightarrow> string) list"

fun col_index :: "string list \<Rightarrow> string \<Rightarrow> nat option" where
  "col_index [] c = None"
| "col_index (x # xs) c = (if x = c then Some 0 else map_option Suc (col_index xs c))"

text \<open>\<^verbatim>\<open>str.strip()\<close> and \<^verbatim>\<open>str.replace(",", "")\<close> on ASCII text.\<close>

definition is_space :: "char \<Rightarrow> bool" where
  "is_space c = (c \<in> set [CHR '' '', CHR 0x09, CHR 0x0A, CHR 0x0B, CHR 0x0C, CHR 0x0D])"

definition strip :: "string \<Rightarrow> string" where
  "strip s = rev (dropWhile is_space (rev (dropWhile is_space s)))"

definition drop_commas :: "string \<Rightarrow> string" where
  "drop_commas s = filter (\<lambda>c. c \<noteq> CHR '','') s"

text \<open>
  The outside world of the daily flow. For each provider, the outcome of the body of the
  \<^verbatim>\<open>try\<close> of \<^verbatim>\<open>_retry_get\<close> at every attempt; \<^verbatim>\<open>pd.read_html\<close> (which raises on a page it
  cannot read) and \<^verbatim>\<open>float\<close> on a string (\<open>None\<close> is its \<^verbatim>\<open>ValueError\<close>) are library
  functions and are parameters. A JSON payload is reduced to its \<^verbatim>\<open>"rates"\<close> member
  (\<open>None\<close> when the member is missing or null).
\<close>

record providers =
  xrates_http :: "date \<Rightarrow> nat \<Rightarrow> py_error + string"
  read_html :: "string \<Rightarrow> py_error + html_table list"
  py_float :: "string \<Rightarrow> rat option"
  exchangerate_host_http :: "date \<Rightarrow> string set \<Rightarrow> nat \<Rightarrow> py_error + quotes option"
  frankfurter_http :: "date \<Rightarrow> string set \<Rightarrow> nat \<Rightarrow> py_error + quotes option"

text \<open>
  The row loop of \<^verbatim>\<open>_from_xrates\<close> (lines 148--157) on one table. A \<^verbatim>\<open>KeyError\<close> at
  \<^verbatim>\<open>row[name_col]\<close> is caught by the outer \<^verbatim>\<open>try\<close>, which abandons the table and keeps the
  rates stored so far; an unknown name skips the row; an exception in the inner \<^verbatim>\<open>try\<close>
  (\<^verbatim>\<open>row[rate_col]\<close> or \<^verbatim>\<open>float\<close>) skips the row.
\<close>

fun xrates_rows ::
  "(string \<Rightarrow> rat option) \<Rightarrow> string list \<Rightarrow> string \<Rightarrow> string \<Rightarrow> (nat \<Rightarrow> string) list \<Rightarrow> quotes \<Rightarrow> quotes"
where
  "xrates_rows pf cols name_col rate_col [] rates = rates"
| "xrates_rows pf cols name_col rate_col (row # rest) rates =
     (case col_index cols name_col of
        None \<Rightarrow> rates
      | Some i \<Rightarrow>
          (case XRATES_NAME_TO_ISO (strip (row i)) of
             None \<Rightarrow> xrates_rows pf cols name_col rate_col rest rates
           | Some isoc \<Rightarrow>
               if isoc = [] then xrates_rows pf cols name_col rate_col rest rates
               else
                 (case col_index cols rate_col of
                    None \<Rightarrow> xrates_rows pf cols name_col rate_col rest rates
                  | Some j \<Rightarrow>
                      (case pf (drop_commas (row j)) of
                         None \<Rightarrow> xrates_rows pf cols name_col rate_col rest rates
                       | Some val \<Rightarrow>
                           xrates_rows pf cols name_col rate_col rest
                             (rates(isoc \<mapsto> Some val))))))"

text \<open>The table loop of \<^verbatim>\<open>_from_xrates\<close> (lines 142--159).\<close>

fun xrates_tables :: "(string \<Rightarrow> rat option) \<Rightarrow> html_table list \<Rightarrow> quotes \<Rightarrow> quotes" where
  "xrates_tables pf [] rates = rates"
| "xrates_tables pf (df # rest) rates =
     (let cols = map strip (tcolumns df)
      in if length cols < 2 then xrates_tables pf rest rates
         else xrates_tables pf rest
                (xrates_rows pf (tcolumns df) (cols ! 0) (cols ! 1) (trows df) rates))"

definition from_xrates :: "providers \<Rightarrow> date \<Rightarrow> py_error + quotes" where
  "from_xrates env as_of =
     (case retry_get (xrates_http env as_of) 3 of
        Inl e \<Rightarrow> Inl e
      | Inr html \<Rightarrow>
          (case read_html env html of
             Inl e \<Rightarrow> Inl e
           | Inr tables \<Rightarrow> Inr (xrates_tables (py_float env) tables Map.empty)))"

text \<open>\<^verbatim>\<open>data.get("rates") or {}\<close>\<close>

definition rates_or_empty :: "quotes option \<Rightarrow> quotes" where
  "rates_or_empty data = (case data of None \<Rightarrow> Map.empty | Some r \<Rightarrow> r)"

definition from_exchangerate_host :: "providers \<Rightarrow> date \<Rightarrow> string set \<Rightarrow> py_error + quotes" where
  "from_exchangerate_host env as_of needed =
     (case retry_get (exchangerate_host_http env as_of needed) 3 of
        Inl e \<Rightarrow> Inl e
      | Inr data \<Rightarrow> Inr (rates_or_empty data))"

definition from_frankfurter :: "providers \<Rightarrow> date \<Rightarrow> string set \<Rightarrow> py_error + quotes" where
  "from_frankfurter env as_of needed =
     (case retry_get (frankfurter_http env as_of needed) 3 of
        Inl e \<Rightarrow> Inl e
      | Inr data \<Rightarrow> Inr (rates_or_empty data))"

section \<open>Daily flow: quote resolver (\<^verbatim>\<open>fetch_usd_quotes_for_date\<close>)\<close>

text \<open>
  The adapter calls made, in order, are returned beside the result: each call is an HTTP
  exchange, an effect of the run. A set of currencies is kept as the list of its members
  in the order of \<open>CURRENCIES\<close>.
\<close>

datatype adapter_call =
    Call_xrates date
  | Call_exchangerate_host date "string set"
  | Call_frankfurter date "string set"

text \<open>\<^verbatim>\<open>required = set(CURRENCIES) - {"USD"}\<close>\<close>

definition required :: "string list" where
  "required = filter (\<lambda>c. c \<noteq> ''USD'') CURRENCIES"

text \<open>\<^verbatim>\<open>required.issubset(set(k for k in xr if xr[k] is not None))\<close>\<close>

definition xr_has_all :: "quotes \<Rightarrow> bool" where
  "xr_has_all xr = list_all (\<lambda>c. case xr c of Some (Some v) \<Rightarrow> True | _ \<Rightarrow> False) required"

text \<open>\<^verbatim>\<open>{k: float(v) for k, v in xr.items() if v is not None}\<close>\<close>

definition non_null :: "quotes \<Rightarrow> quotes" where
  "non_null xr = (\<lambda>k. case xr k of Some (Some v) \<Rightarrow> Some (Some v) | _ \<Rightarrow> None)"

text \<open>\<^verbatim>\<open>required - set(rates.keys())\<close>\<close>

definition missing_of :: "quotes \<Rightarrow> string list" where
  "missing_of rates = filter (\<lambda>c. rates c = None) required"

text \<open>
  The loop \<^verbatim>\<open>for k, v in (eh or {}).items(): if v is not None and k not in rates:
  rates[k] = float(v)\<close>. Every iteration reads and writes its own key only, so the
  result is given key by key.
\<close>

definition merge_absent :: "quotes \<Rightarrow> quotes \<Rightarrow> quotes" where
  "merge_absent rates eh =
     (\<lambda>k. case rates k of
             Some r \<Rightarrow> Some r
           | None \<Rightarrow> (case eh k of Some (Some v) \<Rightarrow> Some (Some v) | _ \<Rightarrow> None))"

text \<open>\<^verbatim>\<open>rates["USD"] = 1.0; rates.setdefault("PAB", 1.0)\<close>\<close>

definition ensure_usd_pab :: "quotes \<Rightarrow> quotes" where
  "ensure_usd_pab rates =
     (let r1 = rates(''USD'' \<mapsto> Some 1)
      in if r1 ''PAB'' = None then r1(''PAB'' \<mapsto> Some 1) else r1)"

definition fetch_usd_quotes_for_date ::
  "providers \<Rightarrow> date \<Rightarrow> adapter_call list \<times> (py_error + quotes)"
where
  "fetch_usd_quotes_for_date env as_of =
     (case from_xrates env as_of of
        Inl e \<Rightarrow> ([Call_xrates as_of], Inl e)
      | Inr xr \<Rightarrow>
          if xr_has_all xr
          then ([Call_xrates as_of], Inr (ensure_usd_pab (non_null xr)))
          else
            (let rates = non_null xr; missing = missing_of rates
             in if missing \<noteq> [] then
                  (case from_exchangerate_host env as_of (set missing) of
                     Inl e \<Rightarrow>
                       ([Call_xrates as_of, Call_exchangerate_host as_of (set missing)], Inl e)
                   | Inr eh \<Rightarrow>
                       (let rates2 = merge_absent rates eh; missing2 = missing_of rates2
                        in if missing2 \<noteq> [] then
                             (case from_frankfurter env as_of (set missing2) of
                                Inl e \<Rightarrow>
                                  ([Call_xrates as_of,
                                    Call_exchangerate_host as_of (set missing),
                                    Call_frankfurter as_of (set missing2)], Inl e)
                              | Inr fk \<Rightarrow>
                                  ([Call_xrates as_of,
                                    Call_exchangerate_host as_of (set missing),
                                    Call_frankfurter as_of (set missing2)],
                                   Inr (ensure_usd_pab (merge_absent rates2 fk))))
                           else ([Call_xrates as_of,
                                  Call_exchangerate_host as_of (set missing)],
                                 Inr (ensure_usd_pab rates2))))
                else ([Call_xrates as_of], Inr (ensure_usd_pab rates))))"

section \<open>pandas DataFrames\<close>

text \<open>
  A DataFrame is its column labels and its rows in index order; a row gives the cell under
  every label, \<open>CNull\<close> (NaN) where it has none. File input and output keep a table as it
  is: \<^verbatim>\<open>to_csv\<close> followed by \<^verbatim>\<open>read_csv\<close> is taken to give the same columns and cells.
\<close>

type_synonym dfrow = "string \<Rightarrow> cell"

record dataframe =
  df_columns :: "string list"
  df_rows :: "dfrow list"

text \<open>The labels of a list in the order of their first appearance.\<close>

fun first_seen :: "string list \<Rightarrow> string list \<Rightarrow> string list" where
  "first_seen seen [] = []"
| "first_seen seen (c # cs) =
     (if c \<in> set seen then first_seen seen cs else c # first_seen (c # seen) cs)"

definition dict_row :: "pyrow \<Rightarrow> dfrow" where
  "dict_row r = (\<lambda>k. case map_of r k of Some c \<Rightarrow> c | None \<Rightarrow> CNull)"

text \<open>\<^verbatim>\<open>pd.DataFrame(all_rows)\<close> on a list of dicts.\<close>

definition DataFrame :: "pyrow list \<Rightarrow> dataframe" where
  "DataFrame all_rows =
     \<lparr>df_columns = first_seen [] (concat (map (map fst) all_rows)),
      df_rows = map dict_row all_rows\<rparr>"

text \<open>\<^verbatim>\<open>df[cols]\<close> with a list of labels: \<^verbatim>\<open>KeyError\<close> when a label is not a column.\<close>

definition select_columns :: "string list \<Rightarrow> dataframe \<Rightarrow> py_error + dataframe" where
  "select_columns cols df =
     (if list_all (\<lambda>c. c \<in> set (df_columns df)) cols
      then Inr \<lparr>df_columns = cols,
                df_rows = map (\<lambda>r k. if k \<in> set cols then r k else CNull) (df_rows df)\<rparr>
      else Inl KeyError)"

text \<open>
  \<^verbatim>\<open>pd.concat([a, b], ignore_index=True)\<close>: the columns of \<open>a\<close>, then the new ones of \<open>b\<close>;
  the rows of \<open>a\<close>, then those of \<open>b\<close>.
\<close>

definition concat_df :: "dataframe \<Rightarrow> dataframe \<Rightarrow> dataframe" where
  "concat_df a b =
     \<lparr>df_columns = df_columns a @ filter (\<lambda>c. c \<notin> set (df_columns a)) (df_columns b),
      df_rows = df_rows a @ df_rows b\<rparr>"


fun drop_duplicates_from :: "('r \<Rightarrow> 'k) \<Rightarrow> 'k list \<Rightarrow> 'r list \<Rightarrow> 'r list" where
  "drop_duplicates_from key seen [] = []"
| "drop_duplicates_from key seen (r # rs) =
     (if key r \<in> set seen then drop_duplicates_from key seen rs
      else r # drop_duplicates_from key (key r # seen) rs)"

definition drop_duplicates_first :: "('r \<Rightarrow> 'k) \<Rightarrow> 'r list \<Rightarrow> 'r list" where
  "drop_duplicates_first key rs = drop_duplicates_from key [] rs"

text \<open>
  The order \<^verbatim>\<open>sort_values\<close> uses on a column: values of one kind in their own order,
  nulls last. The key is injective, so rows with different cells never tie.
\<close>

definition cell_key :: "cell \<Rightarrow> nat \<times> string \<times> int \<times> rat \<times> date" where
  "cell_key c =
     (case c of
        CStr s \<Rightarrow> (0, s, 0, 0, (0, 0, 0))
      | CInt n \<Rightarrow> (1, [], n, 0, (0, 0, 0))
      | CNum x \<Rightarrow> (2, [], 0, x, (0, 0, 0))
      | CDate d \<Rightarrow> (3, [], 0, 0, d)
      | CNull \<Rightarrow> (4, [], 0, 0, (0, 0, 0)))"

text \<open>\<^verbatim>\<open>Series.bfill()\<close> and \<^verbatim>\<open>Series.ffill()\<close> on the cells of a column.\<close>

fun bfill :: "cell list \<Rightarrow> cell list" where
  "bfill [] = []"
| "bfill (x # xs) =
     (if x = CNull then (case bfill xs of [] \<Rightarrow> CNull | y # ys \<Rightarrow> y) else x) # bfill xs"

fun ffill_from :: "cell \<Rightarrow> cell list \<Rightarrow> cell list" where
  "ffill_from prev [] = []"
| "ffill_from prev (x # xs) =
     (if x = CNull then prev # ffill_from prev xs else x # ffill_from x xs)"

definition ffill :: "cell list \<Rightarrow> cell list" where
  "ffill xs = ffill_from CNull xs"

section \<open>Daily flow: collector (\<^verbatim>\<open>collect_for_dates\<close>)\<close>

text \<open>The loop over the dates (lines 232--237): an exception of the resolver or of the
  row builder leaves the loop and the function.\<close>

fun collect_loop :: "providers \<Rightarrow> date list \<Rightarrow> pyrow list \<Rightarrow> py_error + pyrow list" where
  "collect_loop env [] all_rows = Inr all_rows"
| "collect_loop env (d # ds) all_rows =
     (case snd (fetch_usd_quotes_for_date env d) of
        Inl e \<Rightarrow> Inl e
      | Inr usd_to \<Rightarrow>
          (case build_rows_for_date d usd_to of
             Inl e \<Rightarrow> Inl e
           | Inr built \<Rightarrow> collect_loop env ds (all_rows @ built)))"

text \<open>The lambda \<^verbatim>\<open>lambda s: s.bfill().ffill()\<close> applied to the series of one currency.\<close>

definition fill_series :: "cell list \<Rightarrow> cell list" where
  "fill_series s = ffill (bfill s)"

text \<open>
  \<^verbatim>\<open>pd.to_datetime(df["log_date"])\<close> without \<^verbatim>\<open>errors="coerce"\<close>: a cell that is neither a
  date nor null raises.
\<close>

definition to_datetime_strict :: "dfrow list \<Rightarrow> py_error + dfrow list" where
  "to_datetime_strict rs =
     (if list_all (\<lambda>r. case r ''log_date'' of CDate d \<Rightarrow> True | CNull \<Rightarrow> True | _ \<Rightarrow> False) rs
      then Inr rs else Inl ValueError)"

text \<open>
  The assignment of line 245: the rows are in sorted order; the series of a currency is
  the \<^verbatim>\<open>conversion_rate\<close> cells of its rows in that order, and the filled series is
  written back by index. \<open>filled c\<close> is what is left of the filled series of currency \<open>c\<close>.
  \<^verbatim>\<open>groupby\<close> leaves out the rows whose currency is null, so they get NaN.
\<close>

definition group_series :: "dfrow list \<Rightarrow> cell \<Rightarrow> cell list" where
  "group_series rs c = map (\<lambda>r. r ''conversion_rate'') (filter (\<lambda>r. r ''currency'' = c) rs)"

fun assign_filled :: "(cell \<Rightarrow> cell list) \<Rightarrow> dfrow list \<Rightarrow> dfrow list" where
  "assign_filled filled [] = []"
| "assign_filled filled (r # rs) =
     (let c = r ''currency''
      in if c = CNull then r(''conversion_rate'' := CNull) # assign_filled filled rs
         else (case filled c of
                 [] \<Rightarrow> r(''conversion_rate'' := CNull) # assign_filled filled rs
               | v # vs \<Rightarrow> r(''conversion_rate'' := v) # assign_filled (filled(c := vs)) rs))"

definition gap_fill :: "dataframe \<Rightarrow> py_error + dataframe" where
  "gap_fill df =
     (case to_datetime_strict (df_rows df) of
        Inl e \<Rightarrow> Inl e
      | Inr rs \<Rightarrow>
          (let sorted_rows =
                 sort_key (\<lambda>r. (cell_key (r ''currency''), cell_key (r ''log_date''))) rs
           in Inr (df\<lparr>df_rows :=
                     assign_filled (\<lambda>c. fill_series (group_series sorted_rows c)) sorted_rows\<rparr>)))"

definition collect_for_dates :: "providers \<Rightarrow> date list \<Rightarrow> py_error + dataframe" where
  "collect_for_dates env dates =
     (case collect_loop env dates [] of
        Inl e \<Rightarrow> Inl e
      | Inr all_rows \<Rightarrow>
          (case select_columns
                  [''log_date'', ''conversion_year'', ''conversion_month'', ''country'',
                   ''country_code'', ''currency'', ''conversion_rate'']
                  (DataFrame all_rows) of
             Inl e \<Rightarrow> Inl e
           | Inr df \<Rightarrow> gap_fill df))"

section \<open>Daily flow: writer (\<^verbatim>\<open>write_append_dedupe\<close>)\<close>

text \<open>What a path holds: nothing, a file that cannot be read as a table, or a table.\<close>

datatype stored_file = Missing | Unreadable | Stored dataframe











text \<open>The rows a path holds.\<close>

definition stored_rows :: "stored_file \<Rightarrow> dfrow list" where
  "stored_rows f = (case f of Stored d \<Rightarrow> df_rows d | _ \<Rightarrow> [])"

section \<open>Month-block flow (\<^verbatim>\<open>new_ccr.py\<close>)\<close>

text \<open>
  The outside world of the month-block flow: the page (or the exception of the GET or of
  \<^verbatim>\<open>raise_for_status\<close>), \<^verbatim>\<open>pd.read_html\<close>, \<^verbatim>\<open>float\<close> on a string, the two regular
  expressions of the column detection as predicates on a label, and today's date.
\<close>

record month_env =
  page :: "py_error + string"
  m_read_html :: "string \<Rightarrow> py_error + html_table list"
  m_float :: "string \<Rightarrow> rat option"
  name_pat :: "string \<Rightarrow> bool"
  rate_pat :: "string \<Rightarrow> bool"
  today :: date

text \<open>The loop over the labels, lines 83--85, on the pair \<open>(name_col, rate_col)\<close>.\<close>

fun detect_columns ::
  "(string \<Rightarrow> bool) \<Rightarrow> (string \<Rightarrow> bool) \<Rightarrow> string list \<Rightarrow> string option \<times> string option
     \<Rightarrow> string option \<times> string option"
where
  "detect_columns np rp [] (n, r) = (n, r)"
| "detect_columns np rp (c # cs) (n, r) =
     (let n' = (if np c then Some c else n);
          r' = (if rp c \<and> Some c \<noteq> n' then Some c else r)
      in detect_columns np rp cs (n', r'))"

text \<open>
  The row loop, lines 92--101. The labels have been replaced by \<open>cols\<close>;
  \<^verbatim>\<open>row[name_col]\<close> stands outside any \<^verbatim>\<open>try\<close>.
\<close>

fun month_rows ::
  "(string \<Rightarrow> rat option) \<Rightarrow> string list \<Rightarrow> string \<Rightarrow> string \<Rightarrow> (nat \<Rightarrow> string) list \<Rightarrow> quotes
     \<Rightarrow> py_error + quotes"
where
  "month_rows pf cols name_col rate_col [] rates = Inr rates"
| "month_rows pf cols name_col rate_col (row # rest) rates =
     (case col_index cols name_col of
        None \<Rightarrow> Inl KeyError
      | Some i \<Rightarrow>
          (case XRATES_NAME_TO_ISO (strip (row i)) of
             None \<Rightarrow> month_rows pf cols name_col rate_col rest rates
           | Some isoc \<Rightarrow>
               if isoc = [] then month_rows pf cols name_col rate_col rest rates
               else
                 (case col_index cols rate_col of
                    None \<Rightarrow> month_rows pf cols name_col rate_col rest rates
                  | Some j \<Rightarrow>
                      (case pf (drop_commas (row j)) of
                         None \<Rightarrow> month_rows pf cols name_col rate_col rest rates
                       | Some val \<Rightarrow>
                           month_rows pf cols name_col rate_col rest
                             (rates(isoc \<mapsto> Some val))))))"

text \<open>The table loop, lines 80--101.\<close>

fun month_tables ::
  "(string \<Rightarrow> bool) \<Rightarrow> (string \<Rightarrow> bool) \<Rightarrow> (string \<Rightarrow> rat option) \<Rightarrow> html_table list \<Rightarrow> quotes
     \<Rightarrow> py_error + quotes"
where
  "month_tables np rp pf [] rates = Inr rates"
| "month_tables np rp pf (df # rest) rates =
     (let cols = map strip (tcolumns df)
      in case detect_columns np rp cols (None, None) of
           (Some name_col, Some rate_col) \<Rightarrow>
             (case month_rows pf cols name_col rate_col (trows df) rates of
                Inl e \<Rightarrow> Inl e
              | Inr rates' \<Rightarrow> month_tables np rp pf rest rates')
         | _ \<Rightarrow>
             if 2 \<le> length cols
             then (case month_rows pf cols (cols ! 0) (cols ! 1) (trows df) rates of
                     Inl e \<Rightarrow> Inl e
                   | Inr rates' \<Rightarrow> month_tables np rp pf rest rates')
             else month_tables np rp pf rest rates)"

text \<open>Lines 66--101: the page, its tables, and the rates parsed from them.\<close>

definition parse_xrates_page :: "month_env \<Rightarrow> py_error + quotes" where
  "parse_xrates_page env =
     (case page env of
        Inl e \<Rightarrow> Inl e
      | Inr text \<Rightarrow>
          (case m_read_html env text of
             Inl e \<Rightarrow> Inl e
           | Inr tables \<Rightarrow>
               if tables = [] then Inl ValueError
               else month_tables (name_pat env) (rate_pat env) (m_float env) tables Map.empty))"

text \<open>Lines 103--112: the USD and PAB entries and the sanity check \<^verbatim>\<open>len(rates) <= 1\<close>.\<close>

definition fetch_xrates_usd_to_quotes :: "month_env \<Rightarrow> py_error + quotes" where
  "fetch_xrates_usd_to_quotes env =
     (case parse_xrates_page env of
        Inl e \<Rightarrow> Inl e
      | Inr parsed \<Rightarrow>
          (let rates = ensure_usd_pab parsed
           in if card (dom rates) \<le> 1 then Inl ValueError else Inr rates))"

text \<open>\<^verbatim>\<open>str\<close> of a natural number, and \<^verbatim>\<open>ym_label\<close>: \<^verbatim>\<open>strftime("%Y-%B")\<close>.\<close>

fun digits :: "nat \<Rightarrow> string" where
  "digits n =
     (if n < 10 then [char_of (48 + n)] else digits (n div 10) @ [char_of (48 + n mod 10)])"

definition ym_label :: "date \<Rightarrow> string" where
  "ym_label d = digits (nat (year_of d)) @ ''-'' @ month_name (month_of d)"

text \<open>Line 130: \<^verbatim>\<open>conv = (1.0 / q) if q else None\<close>; USD is 1.0.\<close>

definition conv_for_month :: "quotes \<Rightarrow> string \<Rightarrow> cell" where
  "conv_for_month usd_to_c ccy =
     (if ccy = ''USD'' then CNum 1
      else (case usd_to_c ccy of
              Some (Some q) \<Rightarrow> if q = 0 then CNull else CNum (1 / q)
            | _ \<Rightarrow> CNull))"

definition row_for_month :: "date \<Rightarrow> quotes \<Rightarrow> string \<Rightarrow> pyrow" where
  "row_for_month d usd_to_c ccy =
     (let label = ym_label d; country = fst (country_of ccy); ccode = snd (country_of ccy)
      in [(''conversion year-month'', CStr label),
          (''conversion year-month-currency'', CStr (label @ ''-'' @ ccy)),
          (''conversion year-month-country'', CStr (label @ ''-'' @ country)),
          (''currency-year-month'', CStr (ccy @ ''-'' @ label)),
          (''conversion year'', CStr (digits (nat (year_of d)))),
          (''conversion month'', CStr (month_name (month_of d))),
          (''country'', CStr country),
          (''country code'', CStr ccode),
          (''currency'', CStr ccy),
          (''conversion'', conv_for_month usd_to_c ccy)])"

definition build_rows_for_current_month :: "date \<Rightarrow> quotes \<Rightarrow> pyrow list" where
  "build_rows_for_current_month d usd_to_c = map (row_for_month d usd_to_c) CURRENCIES"

text \<open>The first two lines of \<^verbatim>\<open>main\<close>: the rows of the month block, or the exception.\<close>

definition month_block :: "month_env \<Rightarrow> py_error + pyrow list" where
  "month_block env =
     (case fetch_xrates_usd_to_quotes env of
        Inl e \<Rightarrow> Inl e
      | Inr usd_to_c \<Rightarrow> Inr (build_rows_for_current_month (today env) usd_to_c))"

text \<open>
  \<^verbatim>\<open>merge_and_write\<close> on the two paths. When the spreadsheet is open elsewhere
  (\<open>xlsx_locked\<close>) the write raises \<^verbatim>\<open>PermissionError\<close> and a timestamped copy is written
  instead (\<open>xlsx_copies\<close>).
\<close>

record files =
  csv :: stored_file
  xlsx :: stored_file
  xlsx_locked :: bool
  xlsx_copies :: "dataframe list"

definition merge_key :: string where
  "merge_key = ''conversion year-month-currency''"

text \<open>Lines 161--163: \<^verbatim>\<open>pd.concat\<close>, then \<^verbatim>\<open>drop_duplicates(subset=[key], keep="first")\<close>.\<close>

definition merged :: "dataframe \<Rightarrow> dataframe \<Rightarrow> dataframe" where
  "merged df_old df_new =
     (concat_df df_old df_new)\<lparr>df_rows :=
        drop_duplicates_first (\<lambda>r. r merge_key) (df_rows (concat_df df_old df_new))\<rparr>"

text \<open>The merge with what a path holds, lines 157--165 and 171--182; \<open>dflt\<close> is the
  table used when the path gives nothing to merge with.\<close>

definition merge_existing :: "stored_file \<Rightarrow> dataframe \<Rightarrow> dataframe \<Rightarrow> dataframe" where
  "merge_existing f df_new dflt =
     (case f of
        Stored df_old \<Rightarrow>
          if merge_key \<in> set (df_columns df_old) then merged df_old df_new else dflt
      | _ \<Rightarrow> dflt)"

definition merge_and_write :: "dataframe \<Rightarrow> files \<Rightarrow> files" where
  "merge_and_write df_new fs =
     (let df_out = merge_existing (csv fs) df_new df_new;
          df_out_xlsx = merge_existing (xlsx fs) df_new df_out
      in if xlsx_locked fs
         then fs\<lparr>csv := Stored df_out, xlsx_copies := xlsx_copies fs @ [df_out_xlsx]\<rparr>
         else fs\<lparr>csv := Stored df_out, xlsx := Stored df_out_xlsx\<rparr>)"

section \<open>Concrete scenarios\<close>

text \<open>
  x-rates is down (every attempt raises) while both JSON providers would quote every
  currency they are asked for.
\<close>

definition xrates_down :: providers where
  "xrates_down =
     \<lparr>xrates_http = (\<lambda>d i. Inl ValueError),
      read_html = (\<lambda>h. Inr []),
      py_float = (\<lambda>s. None),
      exchangerate_host_http =
        (\<lambda>d needed i. Inr (Some (\<lambda>k. if k \<in> needed then Some (Some 2) else None))),
      frankfurter_http =
        (\<lambda>d needed i. Inr (Some (\<lambda>k. if k \<in> needed then Some (Some 2) else None)))\<rparr>"

text \<open>A row of an HTML table given by the texts of its cells.\<close>

definition cells_row :: "string list \<Rightarrow> nat \<Rightarrow> string" where
  "cells_row xs i = (if i < length xs then xs ! i else [])"

text \<open>\<^verbatim>\<open>float\<close> on the strings that occur in the scenarios.\<close>

definition float_table :: "string \<Rightarrow> rat option" where
  "float_table = map_of
     [(''1808.5'', 3617 / 2), (''1.47'', 147 / 100), (''4.9'', 49 / 10), (''1.33'', 133 / 100),
      (''880'', 880), (''7.1'', 71 / 10), (''3.67'', 367 / 100), (''0.91'', 91 / 100),
      (''17'', 17), (''1.6'', 8 / 5), (''1'', 1), (''0.78'', 39 / 50), (''0.912'', 114 / 125), (''2'', 2)]"

text \<open>An x-rates page that lists every tracked currency but USD.\<close>

definition full_table :: html_table where
  "full_table =
     \<lparr>tcolumns = [''US Dollar'', ''1.00 USD'', ''inv. 1.00 USD''],
      trows = map cells_row
        [[''Argentine Peso'', ''1,808.5'', ''0.000553''],
         [''Australian Dollar'', ''1.47'', ''0.680272''],
         [''Brazilian Real'', ''4.9'', ''0.204082''],
         [''Canadian Dollar'', ''1.33'', ''0.75188''],
         [''Chilean Peso'', ''880'', ''0.001136''],
         [''Chinese Yuan Renminbi'', ''7.1'', ''0.140845''],
         [''Emirati Dirham'', ''3.67'', ''0.272480''],
         [''Euro'', ''0.91'', ''1.098901''],
         [''Mexican Peso'', ''17'', ''0.058824''],
         [''New Zealand Dollar'', ''1.6'', ''0.625''],
         [''Panamanian Balboa'', ''1'', ''1''],
         [''British Pound'', ''0.78'', ''1.282051'']]\<rparr>"

text \<open>x-rates answers at the second attempt with that page; the JSON providers are down.\<close>

definition xrates_full :: providers where
  "xrates_full =
     \<lparr>xrates_http = (\<lambda>d i. if i = 0 then Inl ValueError else Inr ''page''),
      read_html = (\<lambda>h. Inr [full_table]),
      py_float = float_table,
      exchangerate_host_http = (\<lambda>d needed i. Inl ValueError),
      frankfurter_http = (\<lambda>d needed i. Inl ValueError)\<rparr>"

definition full_quotes :: quotes where
  "full_quotes =
     [''ARS'' \<mapsto> Some (3617 / 2), ''AUD'' \<mapsto> Some (147 / 100), ''BRL'' \<mapsto> Some (49 / 10),
      ''CAD'' \<mapsto> Some (133 / 100), ''CLP'' \<mapsto> Some 880, ''CNY'' \<mapsto> Some (71 / 10),
      ''AED'' \<mapsto> Some (367 / 100), ''EUR'' \<mapsto> Some (91 / 100), ''MXN'' \<mapsto> Some 17,
      ''NZD'' \<mapsto> Some (8 / 5), ''PAB'' \<mapsto> Some 1, ''GBP'' \<mapsto> Some (39 / 50)]"



text \<open>An x-rates page that quotes the euro and the balboa, the latter off parity; the
  patterns of the column detection as they act on the labels of x-rates.\<close>

definition balboa_table :: html_table where
  "balboa_table =
     \<lparr>tcolumns = [''US Dollar'', ''1.00 USD'', ''inv. 1.00 USD''],
      trows = map cells_row [[''Euro'', ''0.91'', ''1.098901''],
                             [''Panamanian Balboa'', ''2'', ''0.5'']]\<rparr>"

definition balboa_quoted :: month_env where
  "balboa_quoted =
     \<lparr>page = Inr ''page'',
      m_read_html = (\<lambda>h. Inr [balboa_table]),
      m_float = float_table,
      name_pat = (\<lambda>c. False),
      rate_pat = (\<lambda>c. True),
      today = (2025, 10, 15)\<rparr>"








definition month_row :: "string \<Rightarrow> rat \<Rightarrow> dfrow" where
  "month_row k conv = dict_row [(''conversion year-month-currency'', CStr k), (''conversion'', CNum conv)]"

definition month_batch :: dataframe where
  "month_batch = \<lparr>df_columns = [''conversion year-month-currency'', ''conversion''],
                   df_rows = [month_row ''2025-October-EUR'' 2, month_row ''2025-October-GBP'' 3]\<rparr>"


definition table_without_key :: dataframe where
  "table_without_key = \<lparr>df_columns = [''currency'', ''conversion''],
                         df_rows = [dict_row [(''currency'', CStr ''EUR''), (''conversion'', CNum 1)]]\<rparr>"


definition keyless_files :: files where
  "keyless_files = \<lparr>csv = Stored table_without_key, xlsx = Missing, xlsx_locked = False,
                     xlsx_copies = []\<rparr>"




section \<open>Verified properties\<close>

subsection \<open>Fetch client\<close>

lemma retry_loop_exhausted:
  "(\<forall>j. i \<le> j \<and> j < i + n \<longrightarrow> (\<exists>e. attempt j = Inl e))
     \<Longrightarrow> retry_loop attempt i n = Inl RuntimeError"
proof (induction n arbitrary: i)
  case 0
  then show ?case by simp
next
  case (Suc n)
  from Suc.prems obtain e where e: "attempt i = Inl e" by force
  have "retry_loop attempt (Suc i) n = Inl RuntimeError"
    using Suc.prems by (intro Suc.IH) auto
  with e show ?case by simp
qed

lemma retry_loop_error: "retry_loop attempt i n = Inl e \<Longrightarrow> e = RuntimeError"
  by (induction n arbitrary: i) (auto split: sum.splits)

lemma from_xrates_down: "from_xrates xrates_down d = Inl RuntimeError"
  by (simp add: from_xrates_def retry_get_def xrates_down_def numeral_3_eq_3)

subsection \<open>Quote resolver: failures of an adapter\<close>




subsection \<open>Quote resolver: coverage and priority\<close>

lemma from_xrates_full: "from_xrates xrates_full d = Inr full_quotes"
  by (simp add: from_xrates_def retry_get_def numeral_3_eq_3 xrates_full_def full_table_def
      cells_row_def strip_def is_space_def drop_commas_def XRATES_NAME_TO_ISO_def float_table_def full_quotes_def)


lemma has_quote_iff:
  "(\<exists>v. x = Some (Some v)) \<longleftrightarrow> (case x of Some (Some v) \<Rightarrow> True | _ \<Rightarrow> False)"
  by (auto split: option.splits)

lemma xr_has_all_iff:
  "xr_has_all xr \<longleftrightarrow> (\<forall>c \<in> set CURRENCIES. c \<noteq> ''USD'' \<longrightarrow> (\<exists>v. xr c = Some (Some v)))"
  unfolding has_quote_iff by (auto simp: xr_has_all_def required_def list_all_iff)


lemma full_quotes_cover: "\<forall>c \<in> set CURRENCIES. c \<noteq> ''USD'' \<longrightarrow> (\<exists>v. full_quotes c = Some (Some v))"
  unfolding has_quote_iff by (simp add: CURRENCIES_def full_quotes_def)



lemma non_null_Some: "non_null xr c = Some r \<longleftrightarrow> (\<exists>v. xr c = Some (Some v) \<and> r = Some v)"
  by (auto simp: non_null_def split: option.splits)

lemma merge_absent_keeps: "rates k = Some r \<Longrightarrow> merge_absent rates eh k = Some r"
  by (simp add: merge_absent_def)


lemma merge_absent_adds:
  "rates k = None \<Longrightarrow> eh k = Some (Some v) \<Longrightarrow> merge_absent rates eh k = Some (Some v)"
  by (simp add: merge_absent_def)

lemma ensure_usd_pab_keeps:
  "k \<noteq> ''USD'' \<Longrightarrow> rates k = Some r \<Longrightarrow> ensure_usd_pab rates k = Some r"
  by (auto simp: ensure_usd_pab_def Let_def)

lemma ensure_usd_pab_USD: "ensure_usd_pab rates ''USD'' = Some (Some 1)"
  by (simp add: ensure_usd_pab_def Let_def)



















subsection \<open>Row builders\<close>

lemma distinct_CURRENCIES: "distinct CURRENCIES"
  by (simp add: CURRENCIES_def)

lemma filter_eq_distinct: "distinct cs \<Longrightarrow> c \<in> set cs \<Longrightarrow> filter (\<lambda>x. x = c) cs = [c]"
  by (induction cs) (auto simp: filter_empty_conv)

lemma row_for_date_Inr:
  "row_for_date d u c = Inr r \<longleftrightarrow>
     (\<exists>v. conv_for_date u c = Inr v \<and>
        r = [(''conversion_date'', CDate d),
             (''conversion_year'', CInt (year_of d)),
             (''conversion_month'', CStr (month_name (month_of d))),
             (''country'', CStr (fst (country_of c))),
             (''country_code'', CStr (snd (country_of c))),
             (''currency'', CStr c),
             (''conversion_rate'', v)])"
  by (auto simp: row_for_date_def split: sum.splits)

lemma row_for_date_Inl: "row_for_date d u c = Inl e \<longleftrightarrow> conv_for_date u c = Inl e"
  by (auto simp: row_for_date_def split: sum.splits)

lemma row_for_date_fields:
  assumes "row_for_date d u c = Inr r"
  shows "row_get r ''currency'' = Some (CStr c)"
    and "\<exists>v. conv_for_date u c = Inr v \<and> row_get r ''conversion_rate'' = Some v"
    and "fst ` set r = {''conversion_date'', ''conversion_year'', ''conversion_month'',
           ''country'', ''country_code'', ''currency'', ''conversion_rate''}"
  using assms by (auto simp: row_for_date_Inr row_get_def)

lemma build_rows_loop_Inr:
  "build_rows_loop d u cs acc = Inr rows \<longleftrightarrow>
     (\<exists>rs. rows = acc @ rs \<and> list_all2 (\<lambda>c r. row_for_date d u c = Inr r) cs rs)"
proof (induction cs arbitrary: acc)
  case Nil
  then show ?case by auto
next
  case (Cons c cs)
  show ?case
  proof (cases "row_for_date d u c")
    case (Inl e)
    then show ?thesis by (auto simp: list_all2_Cons1)
  next
    case (Inr r)
    then show ?thesis by (auto simp: Cons.IH list_all2_Cons1)
  qed
qed

lemma build_rows_loop_Inl:
  "build_rows_loop d u cs acc = Inl e \<Longrightarrow> \<exists>c \<in> set cs. conv_for_date u c = Inl e"
  by (induction cs arbitrary: acc) (auto simp: row_for_date_Inl split: sum.splits)

lemma conv_for_date_Inl:
  "conv_for_date u c = Inl e \<longleftrightarrow> (c \<noteq> ''PAB'' \<and> u c = Some (Some 0) \<and> e = ZeroDivisionError)"
  by (auto simp: conv_for_date_def split: option.splits)

lemma rows_of_ccy_none:
  "list_all2 (\<lambda>c r. row_for_date d u c = Inr r) cs rs \<Longrightarrow> c \<notin> set cs \<Longrightarrow> rows_of_ccy c rs = []"
proof (induction cs rs rule: list_all2_induct)
  case Nil
  then show ?case by (simp add: rows_of_ccy_def)
next
  case (Cons x xs r rs)
  then show ?case
    using row_for_date_fields(1) [of d u x r] by (auto simp: rows_of_ccy_def)
qed

lemma cells_of_built:
  assumes "list_all2 (\<lambda>c r. row_for_date d u c = Inr r) cs rs" "distinct cs" "c \<in> set cs"
  shows "\<exists>v. conv_for_date u c = Inr v \<and> cells_of_ccy ''conversion_rate'' c rs = [Some v]"
  using assms
proof (induction cs rs rule: list_all2_induct)
  case Nil
  then show ?case by simp
next
  case (Cons x xs r rs)
  show ?case
  proof (cases "x = c")
    case True
    with Cons.prems have "c \<notin> set xs" by simp
    from rows_of_ccy_none [OF Cons.hyps(2) this] Cons.hyps(1) True show ?thesis
      using row_for_date_fields(1,2) [of d u c r]
      by (auto simp: cells_of_ccy_def rows_of_ccy_def)
  next
    case False
    with Cons.prems have "c \<in> set xs" "distinct xs" by auto
    from Cons.IH [OF this(2,1)] Cons.hyps(1) False show ?thesis
      using row_for_date_fields(1) [of d u x r]
      by (auto simp: cells_of_ccy_def rows_of_ccy_def)
  qed
qed

lemma built_cells:
  assumes "build_rows_for_date d u = Inr rows" "c \<in> set CURRENCIES"
  shows "\<exists>v. conv_for_date u c = Inr v \<and> cells_of_ccy ''conversion_rate'' c rows = [Some v]"
  using assms cells_of_built [OF _ distinct_CURRENCIES, of d u rows c]
  by (auto simp: build_rows_for_date_def build_rows_loop_Inr)

lemma build_rows_total:
  "(\<exists>rows. build_rows_for_date d u = Inr rows) \<longleftrightarrow>
     (\<forall>c \<in> set CURRENCIES. c \<noteq> ''PAB'' \<longrightarrow> u c \<noteq> Some (Some 0))"
proof
  assume "\<exists>rows. build_rows_for_date d u = Inr rows"
  then obtain rows where r: "build_rows_for_date d u = Inr rows" ..
  show "\<forall>c \<in> set CURRENCIES. c \<noteq> ''PAB'' \<longrightarrow> u c \<noteq> Some (Some 0)"
  proof (intro ballI impI)
    fix c assume "c \<in> set CURRENCIES" "c \<noteq> ''PAB''"
    from built_cells [OF r this(1)] obtain v where "conv_for_date u c = Inr v" by blast
    then show "u c \<noteq> Some (Some 0)" using \<open>c \<noteq> ''PAB''\<close>
      by (auto simp: conv_for_date_def)
  qed
next
  assume a: "\<forall>c \<in> set CURRENCIES. c \<noteq> ''PAB'' \<longrightarrow> u c \<noteq> Some (Some 0)"
  show "\<exists>rows. build_rows_for_date d u = Inr rows"
  proof (cases "build_rows_for_date d u")
    case (Inl e)
    from build_rows_loop_Inl [OF Inl [unfolded build_rows_for_date_def]] a
    show ?thesis by (auto simp: conv_for_date_Inl)
  next
    case (Inr rows)
    then show ?thesis by blast
  qed
qed

lemma py_round6_1: "py_round6 1 = 1"
  by (simp add: py_round6_def round_half_even_def)



lemma row_for_month_fields:
  "row_get (row_for_month d u c) ''currency'' = Some (CStr c)"
  "row_get (row_for_month d u c) ''conversion'' = Some (conv_for_month u c)"
  by (simp_all add: row_for_month_def row_get_def Let_def)

lemma month_cells:
  assumes "c \<in> set CURRENCIES"
  shows "cells_of_ccy ''conversion'' c (build_rows_for_current_month d u) = [Some (conv_for_month u c)]"
proof -
  have "rows_of_ccy c (map (row_for_month d u) cs) = map (row_for_month d u) (filter (\<lambda>x. x = c) cs)" for cs
    by (induction cs) (auto simp: rows_of_ccy_def row_for_month_fields)
  then show ?thesis
    using assms distinct_CURRENCIES
    by (simp add: cells_of_ccy_def build_rows_for_current_month_def filter_eq_distinct row_for_month_fields)
qed

lemma build_rows_for_date_zero_quote_raises:
  "build_rows_for_date (2024, 1, 2) [''EUR'' \<mapsto> Some 0] = Inl ZeroDivisionError"
  by (simp add: build_rows_for_date_def CURRENCIES_def row_for_date_def conv_for_date_def)







subsection \<open>Base and pegged currency\<close>

lemma ensure_usd_pab_PAB:
  "ensure_usd_pab rates ''PAB'' = (if rates ''PAB'' = None then Some (Some 1) else rates ''PAB'')"
  by (simp add: ensure_usd_pab_def Let_def)

lemma fetch_result_USD:
  "fetch_usd_quotes_for_date env d = (calls, Inr m) \<Longrightarrow> m ''USD'' = Some (Some 1)"
  by (auto simp: fetch_usd_quotes_for_date_def Let_def ensure_usd_pab_USD split: sum.splits if_splits)

lemma USD_in: "''USD'' \<in> set CURRENCIES" and PAB_in: "''PAB'' \<in> set CURRENCIES"
  by (simp_all add: CURRENCIES_def)

lemma daily_parity:
  assumes "fetch_usd_quotes_for_date env d = (calls, Inr m)" "build_rows_for_date d m = Inr rows"
  shows "cells_of_ccy ''conversion_rate'' ''USD'' rows = [Some (CNum 1)]"
    and "cells_of_ccy ''conversion_rate'' ''PAB'' rows = [Some (CNum 1)]"
  using built_cells [OF assms(2) USD_in] built_cells [OF assms(2) PAB_in] fetch_result_USD [OF assms(1)]
  by (auto simp: conv_for_date_def py_round6_1)

lemma month_quotes:
  assumes "fetch_xrates_usd_to_quotes env = Inr u" "parse_xrates_page env = Inr parsed"
  shows "u = ensure_usd_pab parsed"
  using assms by (auto simp: fetch_xrates_usd_to_quotes_def Let_def split: if_splits)

lemma monthly_parity:
  assumes "fetch_xrates_usd_to_quotes env = Inr u" "parse_xrates_page env = Inr parsed"
  shows "cells_of_ccy ''conversion'' ''USD'' (build_rows_for_current_month d u) = [Some (CNum 1)]"
    and "parsed ''PAB'' = None \<Longrightarrow>
           cells_of_ccy ''conversion'' ''PAB'' (build_rows_for_current_month d u) = [Some (CNum 1)]"
    and "parsed ''PAB'' = Some (Some q) \<Longrightarrow> q \<noteq> 0 \<Longrightarrow>
           cells_of_ccy ''conversion'' ''PAB'' (build_rows_for_current_month d u) = [Some (CNum (1 / q))]"
  using month_quotes [OF assms]
  by (simp_all add: month_cells USD_in PAB_in conv_for_month_def ensure_usd_pab_PAB)

lemma parse_balboa:
  "parse_xrates_page balboa_quoted = Inr [''EUR'' \<mapsto> Some (91 / 100), ''PAB'' \<mapsto> Some 2]"
  by (simp add: parse_xrates_page_def balboa_quoted_def balboa_table_def cells_row_def strip_def
      is_space_def drop_commas_def XRATES_NAME_TO_ISO_def float_table_def)

lemma fetch_balboa:
  "fetch_xrates_usd_to_quotes balboa_quoted
     = Inr (ensure_usd_pab [''EUR'' \<mapsto> Some (91 / 100), ''PAB'' \<mapsto> Some 2])"
  by (simp add: fetch_xrates_usd_to_quotes_def parse_balboa ensure_usd_pab_def Let_def)

text \<open>
  C3 (as stated, refuted): in the month-block flow a PAB quote of the provider is
  inverted like any other. With the x-rates page quoting 2 balboas per dollar the PAB row
  holds \<open>1 / 2\<close>, not 1.0.
\<close>

theorem balboa_rate_follows_quote:
  "(case month_block balboa_quoted of
      Inl e \<Rightarrow> []
    | Inr rows \<Rightarrow> cells_of_ccy ''conversion'' ''PAB'' rows) = [Some (CNum (1 / 2))]"
  by (simp add: month_block_def fetch_balboa month_cells PAB_in conv_for_month_def ensure_usd_pab_PAB)


text \<open>
  C3 (amended): in the daily flow, whatever the adapters answer, the rows built from a
  resolved map give USD and PAB the rate 1.0. In the month-block flow the USD row is 1.0;
  the PAB row is 1.0 when the page has no PAB quote and \<open>1 / q\<close> when it has the non-zero
  quote \<open>q\<close> (the parity of PAB is a default there, not an override).
\<close>

theorem base_and_pegged_rates:
  "(\<forall>env d calls m rows.
      fetch_usd_quotes_for_date env d = (calls, Inr m) \<and> build_rows_for_date d m = Inr rows \<longrightarrow>
      cells_of_ccy ''conversion_rate'' ''USD'' rows = [Some (CNum 1)]
      \<and> cells_of_ccy ''conversion_rate'' ''PAB'' rows = [Some (CNum 1)])
   \<and> (\<forall>env u parsed d.
      fetch_xrates_usd_to_quotes env = Inr u \<and> parse_xrates_page env = Inr parsed \<longrightarrow>
      cells_of_ccy ''conversion'' ''USD'' (build_rows_for_current_month d u) = [Some (CNum 1)]
      \<and> (parsed ''PAB'' = None \<longrightarrow>
           cells_of_ccy ''conversion'' ''PAB'' (build_rows_for_current_month d u) = [Some (CNum 1)])
      \<and> (\<forall>q. parsed ''PAB'' = Some (Some q) \<and> q \<noteq> 0 \<longrightarrow>
           cells_of_ccy ''conversion'' ''PAB'' (build_rows_for_current_month d u)
             = [Some (CNum (1 / q))]))"
  apply (intro conjI allI impI; (elim conjE)?)
      apply (rule daily_parity(1); assumption)
     apply (rule daily_parity(2); assumption)
    apply (rule monthly_parity(1); assumption)
   apply (rule monthly_parity(2); assumption)
  apply (rule monthly_parity(3); assumption)
  done

lemma fetch_full:
  "fetch_usd_quotes_for_date xrates_full d
     = ([Call_xrates d], Inr (ensure_usd_pab (non_null full_quotes)))"
  using full_quotes_cover by (simp add: fetch_usd_quotes_for_date_def from_xrates_full xr_has_all_iff)

lemma build_full:
  "\<exists>rows. build_rows_for_date d (ensure_usd_pab (non_null full_quotes)) = Inr rows"
  unfolding build_rows_total
  by (simp add: CURRENCIES_def ensure_usd_pab_def non_null_def full_quotes_def Let_def)

theorem base_and_pegged_rates_witness:
  "(\<exists>calls m rows.
      fetch_usd_quotes_for_date xrates_full (2024, 1, 2) = (calls, Inr m)
      \<and> build_rows_for_date (2024, 1, 2) m = Inr rows
      \<and> cells_of_ccy ''conversion_rate'' ''USD'' rows = [Some (CNum 1)]
      \<and> cells_of_ccy ''conversion_rate'' ''PAB'' rows = [Some (CNum 1)])
   \<and> (\<exists>u parsed.
      fetch_xrates_usd_to_quotes balboa_quoted = Inr u \<and> parse_xrates_page balboa_quoted = Inr parsed
      \<and> parsed ''PAB'' = Some (Some 2)
      \<and> cells_of_ccy ''conversion'' ''USD'' (build_rows_for_current_month (2025, 10, 15) u)
          = [Some (CNum 1)]
      \<and> cells_of_ccy ''conversion'' ''PAB'' (build_rows_for_current_month (2025, 10, 15) u)
          = [Some (CNum (1 / 2))])"
proof -
  note daily = base_and_pegged_rates [THEN conjunct1, rule_format]
  note monthly = base_and_pegged_rates [THEN conjunct2, rule_format]
  obtain rows where r: "build_rows_for_date (2024, 1, 2) (ensure_usd_pab (non_null full_quotes)) = Inr rows"
    using build_full by blast
  have f: "fetch_usd_quotes_for_date xrates_full (2024, 1, 2)
     = ([Call_xrates (2024, 1, 2)], Inr (ensure_usd_pab (non_null full_quotes)))"
    by (rule fetch_full)
  from daily [OF conjI [OF f r]]
  have 1: "cells_of_ccy ''conversion_rate'' ''USD'' rows = [Some (CNum 1)]
      \<and> cells_of_ccy ''conversion_rate'' ''PAB'' rows = [Some (CNum 1)]" .
  let ?p = "[''EUR'' \<mapsto> Some (91 / 100 :: rat), ''PAB'' \<mapsto> Some 2]"
  have p: "?p ''PAB'' = Some (Some 2)" by simp
  note m = monthly [OF conjI [OF fetch_balboa parse_balboa], of "(2025, 10, 15)"]
  from m have 2: "cells_of_ccy ''conversion'' ''USD''
      (build_rows_for_current_month (2025, 10, 15) (ensure_usd_pab ?p)) = [Some (CNum 1)]"
    by (rule conjunct1)
  have 3: "cells_of_ccy ''conversion'' ''PAB''
      (build_rows_for_current_month (2025, 10, 15) (ensure_usd_pab ?p)) = [Some (CNum (1 / 2))]"
    by (rule m [THEN conjunct2, THEN conjunct2, rule_format]) simp
  from f r 1 show ?thesis
    using fetch_balboa parse_balboa p 2 3 by blast
qed

subsection \<open>Collector\<close>

lemma first_seen_subset: "set (first_seen seen xs) \<subseteq> set xs"
  by (induction xs arbitrary: seen) auto

lemma build_rows_keys:
  assumes "build_rows_for_date d u = Inr rows" "r \<in> set rows"
  shows "''log_date'' \<notin> fst ` set r"
proof -
  from assms(1) have "list_all2 (\<lambda>c r. row_for_date d u c = Inr r) CURRENCIES rows"
    by (simp add: build_rows_for_date_def build_rows_loop_Inr)
  with assms(2) obtain c where "row_for_date d u c = Inr r"
    by (auto simp: list_all2_conv_all_nth in_set_conv_nth)
  then show ?thesis by (simp add: row_for_date_fields(3))
qed

lemma collect_loop_keys:
  "collect_loop env ds acc = Inr all_rows \<Longrightarrow> \<forall>r \<in> set acc. ''log_date'' \<notin> fst ` set r
     \<Longrightarrow> \<forall>r \<in> set all_rows. ''log_date'' \<notin> fst ` set r"
proof (induction ds arbitrary: acc)
  case Nil
  then show ?case by simp
next
  case (Cons d ds)
  from Cons.prems(1) obtain usd_to built where
    b: "build_rows_for_date d usd_to = Inr built" and
    l: "collect_loop env ds (acc @ built) = Inr all_rows"
    by (auto split: sum.splits)
  have "\<forall>r \<in> set (acc @ built). ''log_date'' \<notin> fst ` set r"
    using Cons.prems(2) build_rows_keys [OF b] by auto
  from Cons.IH [OF l this] show ?case .
qed

lemma select_log_date_raises:
  assumes "\<forall>r \<in> set all_rows. ''log_date'' \<notin> fst ` set r"
  shows "select_columns
           [''log_date'', ''conversion_year'', ''conversion_month'', ''country'',
            ''country_code'', ''currency'', ''conversion_rate'']
           (DataFrame all_rows) = Inl KeyError"
proof -
  have "''log_date'' \<notin> set (concat (map (map fst) all_rows))"
    using assms by auto
  then have "''log_date'' \<notin> set (df_columns (DataFrame all_rows))"
    using first_seen_subset [of "[]" "concat (map (map fst) all_rows)"]
    unfolding DataFrame_def by (simp only: dataframe.simps) blast
  then show ?thesis by (simp add: select_columns_def)
qed

text \<open>
  C1 (amended): \<^verbatim>\<open>collect_for_dates\<close> never returns a table. When the resolver and the
  row builder return for every date, the selection of the column \<^verbatim>\<open>log_date\<close> raises
  \<^verbatim>\<open>KeyError\<close>, since the rows carry their date under \<^verbatim>\<open>conversion_date\<close>; otherwise the
  exception of the resolver or of the row builder leaves the function first. Gap
  filling is never reached.
\<close>

theorem collect_for_dates_never_returns:
  "(\<exists>e. collect_for_dates env dates = Inl e)
   \<and> (\<forall>all_rows. collect_loop env dates [] = Inr all_rows \<longrightarrow>
         collect_for_dates env dates = Inl KeyError)
   \<and> (\<forall>e. collect_loop env dates [] = Inl e \<longrightarrow> collect_for_dates env dates = Inl e)"
proof (cases "collect_loop env dates []")
  case (Inl e)
  then show ?thesis by (simp add: collect_for_dates_def)
next
  case (Inr all_rows)
  from collect_loop_keys [OF Inr] have "\<forall>r \<in> set all_rows. ''log_date'' \<notin> fst ` set r"
    by simp
  from select_log_date_raises [OF this] Inr show ?thesis
    by (simp add: collect_for_dates_def)
qed

text \<open>
  C1 (as stated, refuted): with x-rates down the exception that leaves
  \<^verbatim>\<open>collect_for_dates\<close> on a one-date sequence is the \<^verbatim>\<open>RuntimeError\<close> of the fetch, not
  a \<^verbatim>\<open>KeyError\<close>.
\<close>

theorem collect_for_dates_fetch_error:
  "collect_for_dates xrates_down [(2024, 1, 2)] = Inl RuntimeError"
  by (simp add: collect_for_dates_def fetch_usd_quotes_for_date_def from_xrates_down)

theorem collect_for_dates_never_returns_witness:
  "(\<exists>all_rows. collect_loop xrates_full [(2024, 1, 2)] [] = Inr all_rows)
   \<and> collect_for_dates xrates_full [(2024, 1, 2)] = Inl KeyError"
proof -
  obtain rows where r: "build_rows_for_date (2024, 1, 2) (ensure_usd_pab (non_null full_quotes)) = Inr rows"
    using build_full by blast
  then have l: "collect_loop xrates_full [(2024, 1, 2)] [] = Inr rows"
    by (simp add: fetch_full)
  from collect_for_dates_never_returns [of xrates_full "[(2024, 1, 2)]", THEN conjunct2, THEN conjunct1,
      rule_format, OF l] l
  show ?thesis by blast
qed


subsection \<open>Provider adapters\<close>













lemma from_xrates_no_tables:
  assumes "retry_get (xrates_http env d) 3 = Inr html" "read_html env html = Inr []"
  shows "from_xrates env d = Inr Map.empty"
  using assms by (simp add: from_xrates_def)







subsection \<open>Dataset merger\<close>














































text \<open>
  C10: when the CSV on disk is a table without the column
  \<^verbatim>\<open>conversion year-month-currency\<close>, \<^verbatim>\<open>merge_and_write\<close> writes the new rows alone: the
  CSV afterwards is the batch, and none of the stored rows is kept.
\<close>

theorem keyless_store_is_replaced:
  assumes "csv fs = Stored df_old" and "merge_key \<notin> set (df_columns df_old)"
  shows "csv (merge_and_write df_new fs) = Stored df_new"
  using assms by (simp add: merge_and_write_def merge_existing_def Let_def)

theorem keyless_store_is_replaced_witness:
  "csv keyless_files = Stored table_without_key
   \<and> merge_key \<notin> set (df_columns table_without_key)
   \<and> stored_rows (csv keyless_files) \<noteq> []
   \<and> csv (merge_and_write month_batch keyless_files) = Stored month_batch"
proof -
  have a: "csv keyless_files = Stored table_without_key" by (simp add: keyless_files_def)
  have b: "merge_key \<notin> set (df_columns table_without_key)"
    by (simp add: table_without_key_def merge_key_def)
  have c: "stored_rows (csv keyless_files) \<noteq> []"
    by (simp add: keyless_files_def stored_rows_def table_without_key_def)
  from keyless_store_is_replaced [OF a b, of month_batch] a b c show ?thesis by blast
qed


subsection \<open>Gap filling\<close>



lemma bfill_tail: "bfill (x # xs) ! Suc i = bfill xs ! i"
  by simp




























end
